theory Spec2Isabelle
  imports Complex_Main "HOL-Library.Product_Lexorder" "HOL-Library.Multiset"
begin

section \<open>Python values used by hunter.py\<close>

subsection \<open>Exceptions\<close>

text \<open>
  Everything the \<^verbatim>\<open>try\<close> block of \<^verbatim>\<open>main\<close> can raise is an instance of
  \<^verbatim>\<open>Exception\<close>: a failure of the Azure collaborator (credential, client, listing),
  the \<^verbatim>\<open>AttributeError\<close> of \<^verbatim>\<open>disk.name\<close> on an object without that attribute, and
  the \<^verbatim>\<open>OverflowError\<close> of converting a huge \<^verbatim>\<open>int\<close> to \<^verbatim>\<open>float\<close>.
  \<^verbatim>\<open>exc_str\<close> is Python's \<^verbatim>\<open>str(exc)\<close>.
\<close>

datatype py_exception =
    CollaboratorError string
  | AttributeError string string
  | OverflowError

fun exc_str :: "py_exception \<Rightarrow> string" where
  "exc_str (CollaboratorError msg) = msg"
| "exc_str (AttributeError cls attr) =
     [CHR 0x27] @ cls @ [CHR 0x27] @ '' object has no attribute '' @ [CHR 0x27] @ attr @ [CHR 0x27]"
| "exc_str OverflowError = ''int too large to convert to float''"

subsection \<open>Floats: IEEE 754 binary64, round to nearest, ties to even\<close>

text \<open>
  \<open>Finite s m e\<close> is the double of sign bit \<open>s\<close> and magnitude \<open>m * 2 ^ e\<close>, kept in the
  form the hardware stores: \<open>m < 2 ^ 53\<close>, \<open>- 1074 \<le> e \<le> 971\<close>, and \<open>2 ^ 52 \<le> m\<close> unless
  \<open>e = - 1074\<close> (subnormals and zero). So \<open>1.0\<close> is \<open>Finite False (2 ^ 52) (- 52)\<close> and the
  two zeros are \<open>Finite False 0 (- 1074)\<close> and \<open>Finite True 0 (- 1074)\<close>.
\<close>

datatype pyfloat = Finite bool nat int | Infinity bool | NaN

fun bit_length :: "nat \<Rightarrow> nat" where
  "bit_length n = (if n = 0 then 0 else Suc (bit_length (n div 2)))"

declare bit_length.simps [simp del]

text \<open>\<open>round_half_even m k\<close> is \<open>m / 2 ^ k\<close> rounded to the nearest integer, ties to even.\<close>

definition round_half_even :: "nat \<Rightarrow> nat \<Rightarrow> nat" where
  "round_half_even m k =
     (if k = 0 then m
      else let q = m div 2 ^ k; r = m mod 2 ^ k; h = 2 ^ (k - 1)
           in if h < r \<or> (r = h \<and> odd q) then q + 1 else q)"

text \<open>
  \<open>round_double s m e\<close> rounds the exact value \<open>\<plusminus> m * 2 ^ e\<close> to a double: the unit in the
  last place is \<open>2 ^ p\<close>, a mantissa that rounds up to \<open>2 ^ 53\<close> moves to the next exponent,
  and a result beyond the largest double is an infinity.
\<close>

definition round_double :: "bool \<Rightarrow> nat \<Rightarrow> int \<Rightarrow> pyfloat" where
  "round_double s m e =
     (if m = 0 then Finite s 0 (- 1074)
      else let p = max (e + int (bit_length m) - 53) (- 1074);
               q = (if p \<le> e then m * 2 ^ nat (e - p) else round_half_even m (nat (p - e)));
               p' = (if q = 2 ^ 53 then p + 1 else p);
               q' = (if q = 2 ^ 53 then 2 ^ 52 else q)
           in if 971 < p' then Infinity s else Finite s q' p')"

definition signed :: "bool \<Rightarrow> nat \<Rightarrow> int" where
  "signed s n = (if s then - int n else int n)"

fun float_mul :: "pyfloat \<Rightarrow> pyfloat \<Rightarrow> pyfloat" where
  "float_mul NaN y = NaN"
| "float_mul x NaN = NaN"
| "float_mul (Infinity s) (Infinity t) = Infinity (s \<noteq> t)"
| "float_mul (Infinity s) (Finite t b eb) = (if b = 0 then NaN else Infinity (s \<noteq> t))"
| "float_mul (Finite s a ea) (Infinity t) = (if a = 0 then NaN else Infinity (s \<noteq> t))"
| "float_mul (Finite s a ea) (Finite t b eb) = round_double (s \<noteq> t) (a * b) (ea + eb)"

text \<open>The exact value \<open>x * 2 ^ e\<close> of a sum, rounded; an exact zero is the positive zero.\<close>

definition round_signed :: "int \<Rightarrow> int \<Rightarrow> pyfloat" where
  "round_signed x e =
     (if x = 0 then Finite False 0 (- 1074) else round_double (x < 0) (nat \<bar>x\<bar>) e)"

text \<open>
  Addition: a sum with a zero operand is the other operand (two zeros give the negative
  zero only when both are negative); an exact sum of zero is the positive zero; any other
  exact sum is rounded.
\<close>

fun float_add :: "pyfloat \<Rightarrow> pyfloat \<Rightarrow> pyfloat" where
  "float_add NaN y = NaN"
| "float_add x NaN = NaN"
| "float_add (Infinity s) (Infinity t) = (if s = t then Infinity s else NaN)"
| "float_add (Infinity s) (Finite t b eb) = Infinity s"
| "float_add (Finite s a ea) (Infinity t) = Infinity t"
| "float_add (Finite s a ea) (Finite t b eb) =
     (if a = 0 \<and> b = 0 then Finite (s \<and> t) 0 (- 1074)
      else if a = 0 then Finite t b eb
      else if b = 0 then Finite s a ea
      else round_signed
             (signed s a * 2 ^ nat (ea - min ea eb) + signed t b * 2 ^ nat (eb - min ea eb))
             (min ea eb))"

fun float_neg :: "pyfloat \<Rightarrow> pyfloat" where
  "float_neg (Finite s m e) = Finite (\<not> s) m e"
| "float_neg (Infinity s) = Infinity (\<not> s)"
| "float_neg NaN = NaN"

fun float_abs :: "pyfloat \<Rightarrow> pyfloat" where
  "float_abs (Finite s m e) = Finite False m e"
| "float_abs (Infinity s) = Infinity False"
| "float_abs NaN = NaN"

definition float_sub :: "pyfloat \<Rightarrow> pyfloat \<Rightarrow> pyfloat" where
  "float_sub x y = float_add x (float_neg y)"

text \<open>
  Python's \<^verbatim>\<open><\<close> on floats: false whenever an operand is a NaN, otherwise the order of
  the values (the two zeros are equal).
\<close>

fun float_lt :: "pyfloat \<Rightarrow> pyfloat \<Rightarrow> bool" where
  "float_lt NaN y = False"
| "float_lt x NaN = False"
| "float_lt (Infinity s) (Infinity t) = (s \<and> \<not> t)"
| "float_lt (Infinity s) (Finite t b eb) = s"
| "float_lt (Finite s a ea) (Infinity t) = (\<not> t)"
| "float_lt (Finite s a ea) (Finite t b eb) =
     (let e0 = min ea eb
      in signed s a * 2 ^ nat (ea - e0) < signed t b * 2 ^ nat (eb - e0))"


definition float_ge :: "pyfloat \<Rightarrow> pyfloat \<Rightarrow> bool" where
  "float_ge x y = (x \<noteq> NaN \<and> y \<noteq> NaN \<and> \<not> float_lt x y)"

definition float_eq :: "pyfloat \<Rightarrow> pyfloat \<Rightarrow> bool" where
  "float_eq x y = (x \<noteq> NaN \<and> y \<noteq> NaN \<and> \<not> float_lt x y \<and> \<not> float_lt y x)"

text \<open>
  \<^verbatim>\<open>int * float\<close> converts the \<^verbatim>\<open>int\<close> first (correctly rounded; \<^verbatim>\<open>OverflowError\<close> when
  the rounded value is no finite double) and multiplies then.
\<close>

definition int_to_float :: "int \<Rightarrow> py_exception + pyfloat" where
  "int_to_float i =
     (case round_double (i < 0) (nat \<bar>i\<bar>) 0 of
        Finite s m e \<Rightarrow> Inr (Finite s m e)
      | _ \<Rightarrow> Inl OverflowError)"

definition int_mul_float :: "int \<Rightarrow> pyfloat \<Rightarrow> py_exception + pyfloat" where
  "int_mul_float i x =
     (case int_to_float i of Inl err \<Rightarrow> Inl err | Inr y \<Rightarrow> Inr (float_mul y x))"

text \<open>
  \<^verbatim>\<open>format(x, ".2f")\<close> and \<^verbatim>\<open>format(x, ",.2f")\<close>: the exact value rounded to two decimals
  (ties to even), a minus sign whenever the sign bit is set, the integer part in groups
  of three when \<open>grouping\<close> is set.
\<close>

fun decimal :: "nat \<Rightarrow> string" where
  "decimal n =
     (if n < 10 then [''0123456789'' ! n]
      else decimal (n div 10) @ [''0123456789'' ! (n mod 10)])"

declare decimal.simps [simp del]

fun group3 :: "string \<Rightarrow> string" where
  "group3 (a # b # c # d # rest) = a # b # c # CHR '','' # group3 (d # rest)"
| "group3 ds = ds"

definition thousands :: "string \<Rightarrow> string" where
  "thousands ds = rev (group3 (rev ds))"

definition cents :: "nat \<Rightarrow> int \<Rightarrow> nat" where
  "cents m e = (if 0 \<le> e then m * 100 * 2 ^ nat e else round_half_even (m * 100) (nat (- e)))"

fun format_2f :: "bool \<Rightarrow> pyfloat \<Rightarrow> string" where
  "format_2f grouping NaN = ''nan''"
| "format_2f grouping (Infinity s) = (if s then ''-inf'' else ''inf'')"
| "format_2f grouping (Finite s m e) =
     (let c = cents m e;
          whole = decimal (c div 100);
          frac = [''0123456789'' ! (c mod 100 div 10), ''0123456789'' ! (c mod 10)]
      in (if s then ''-'' else []) @ (if grouping then thousands whole else whole)
           @ ''.'' @ frac)"

text \<open>\<^verbatim>\<open>str(n)\<close> of an \<^verbatim>\<open>int\<close>.\<close>

definition str_int :: "int \<Rightarrow> string" where
  "str_int i = (if i < 0 then ''-'' @ decimal (nat (- i)) else decimal (nat i))"

subsection \<open>Strings\<close>

text \<open>
  \<^verbatim>\<open>s.strip("/")\<close>, \<^verbatim>\<open>s.split("/")\<close>, \<^verbatim>\<open>s.lower()\<close> (on the ASCII letters, the only ones
  that can lower to \<^verbatim>\<open>resourcegroups\<close>), \<^verbatim>\<open>sep.join(xs)\<close> and \<^verbatim>\<open>format(c, "<w")\<close>.
\<close>

definition strip_char :: "char \<Rightarrow> string \<Rightarrow> string" where
  "strip_char c s = rev (dropWhile (\<lambda>x. x = c) (rev (dropWhile (\<lambda>x. x = c) s)))"

fun split_acc :: "char \<Rightarrow> string \<Rightarrow> string \<Rightarrow> string list" where
  "split_acc sep cur [] = [cur]"
| "split_acc sep cur (c # cs) =
     (if c = sep then cur # split_acc sep [] cs else split_acc sep (cur @ [c]) cs)"

definition split_on :: "char \<Rightarrow> string \<Rightarrow> string list" where
  "split_on sep s = split_acc sep [] s"

definition char_lower :: "char \<Rightarrow> char" where
  "char_lower c =
     (case map_of (zip ''ABCDEFGHIJKLMNOPQRSTUVWXYZ'' ''abcdefghijklmnopqrstuvwxyz'') c of
        Some l \<Rightarrow> l
      | None \<Rightarrow> c)"

definition str_lower :: "string \<Rightarrow> string" where
  "str_lower s = map char_lower s"

fun join :: "string \<Rightarrow> string list \<Rightarrow> string" where
  "join sep [] = []"
| "join sep [x] = x"
| "join sep (x # y # ys) = x @ sep @ join sep (y # ys)"

definition ljust :: "nat \<Rightarrow> string \<Rightarrow> string" where
  "ljust w c = c @ replicate (w - length c) CHR '' ''"

section \<open>hunter.py\<close>

subsection \<open>extract_resource_group\<close>

definition segments :: "string \<Rightarrow> string list" where
  "segments resource_id = split_on CHR ''/'' (strip_char CHR ''/'' resource_id)"

text \<open>The \<^verbatim>\<open>for i, part in enumerate(parts)\<close> loop, from index \<open>i\<close> on.\<close>

function rg_loop :: "string list \<Rightarrow> nat \<Rightarrow> string" where
  "rg_loop parts i =
     (if i < length parts
      then (if str_lower (parts ! i) = ''resourcegroups'' \<and> i + 1 < length parts
            then parts ! (i + 1)
            else rg_loop parts (i + 1))
      else ''Unknown'')"
  by pat_completeness auto
termination
  by (relation "measure (\<lambda>(parts, i). length parts - i)") auto

declare rg_loop.simps [simp del]

definition extract_resource_group :: "string \<Rightarrow> string" where
  "extract_resource_group resource_id =
     (if resource_id = [] then ''Unknown'' else rg_loop (segments resource_id) 0)"

subsection \<open>format_money\<close>

definition format_money :: "pyfloat \<Rightarrow> string" where
  "format_money v = ''$'' @ format_2f True v"

subsection \<open>make_table\<close>

text \<open>A report row is the tuple \<^verbatim>\<open>(disk_name, size_gb, resource_group, monthly_cost)\<close>.\<close>

type_synonym row = "string \<times> int \<times> string \<times> pyfloat"

definition headers :: "string list" where
  "headers = [''Disk Name'', ''Size (GB)'', ''Resource Group'', ''Est. Monthly Cost'']"

fun str_row :: "row \<Rightarrow> string list" where
  "str_row (name, size_gb, rg, monthly_cost) = [name, str_int size_gb, rg, format_money monthly_cost]"

text \<open>\<^verbatim>\<open>list(zip(*rows))\<close>: the columns, as many as the shortest row has cells.\<close>

definition zip_star :: "'a list list \<Rightarrow> 'a list list" where
  "zip_star rows =
     (if rows = [] then []
      else map (\<lambda>j. map (\<lambda>r. r ! j) rows) [0..<Min (set (map length rows))])"

text \<open>
  \<^verbatim>\<open>max(len(cell) for cell in col)\<close>. Every column holds its header, so the
  \<^verbatim>\<open>ValueError\<close> of \<^verbatim>\<open>max\<close> on an empty sequence cannot occur.
\<close>

definition max_len :: "string list \<Rightarrow> nat" where
  "max_len col = Max (set (map length col))"

definition col_widths :: "string list list \<Rightarrow> nat list" where
  "col_widths str_rows = map max_len (zip_star (headers # str_rows))"


definition line :: "nat list \<Rightarrow> char \<Rightarrow> string" where
  "line widths sep = ''+'' @ join ''+'' (map (\<lambda>w. replicate (w + 2) sep) widths) @ ''+''"

definition row_line :: "nat list \<Rightarrow> string list \<Rightarrow> string" where
  "row_line widths cells =
     ''|'' @ join ''|'' (map (\<lambda>(c, w). '' '' @ ljust w c @ '' '') (zip cells widths)) @ ''|''"

text \<open>The list \<^verbatim>\<open>out\<close>, and its lines joined by newlines.\<close>

definition table_lines :: "row list \<Rightarrow> string list" where
  "table_lines rows =
     (let str_rows = map str_row rows; widths = col_widths str_rows
      in [line widths CHR ''-'', row_line widths headers, line widths CHR ''='']
           @ map (row_line widths) str_rows @ [line widths CHR ''-''])"

definition make_table :: "row list \<Rightarrow> string" where
  "make_table rows = join [CHR 0x0A] (table_lines rows)"

subsection \<open>The disks the provider yields\<close>

text \<open>
  An attribute of a disk object is missing, \<^verbatim>\<open>None\<close>, or holds a value. \<open>d_class\<close> is
  the name of the object's class, which the message of an \<^verbatim>\<open>AttributeError\<close> quotes.
\<close>

datatype 'a attr = Missing | PyNone | Value 'a

record disk =
  d_class :: string
  d_id :: "string attr"
  d_name :: "string attr"
  disk_size_gb :: "int attr"
  disk_state :: "string attr"

text \<open>\<^verbatim>\<open>getattr(disk, "disk_state", None)\<close>\<close>

definition getattr_disk_state :: "disk \<Rightarrow> string option" where
  "getattr_disk_state d = (case disk_state d of Value s \<Rightarrow> Some s | _ \<Rightarrow> None)"

text \<open>\<^verbatim>\<open>disk.name or "Unnamed"\<close>: the attribute access raises when the attribute is missing.\<close>

definition name_or_unnamed :: "disk \<Rightarrow> py_exception + string" where
  "name_or_unnamed d =
     (case d_name d of
        Missing \<Rightarrow> Inl (AttributeError (d_class d) ''name'')
      | PyNone \<Rightarrow> Inr ''Unnamed''
      | Value s \<Rightarrow> Inr (if s = [] then ''Unnamed'' else s))"

text \<open>\<^verbatim>\<open>int(getattr(disk, "disk_size_gb", 0) or 0)\<close>\<close>

definition size_gb_of :: "disk \<Rightarrow> int" where
  "size_gb_of d = (case disk_size_gb d of Value n \<Rightarrow> n | _ \<Rightarrow> 0)"

text \<open>\<^verbatim>\<open>getattr(disk, "id", "") or ""\<close>\<close>

definition id_or_empty :: "disk \<Rightarrow> string" where
  "id_or_empty d = (case d_id d of Value s \<Rightarrow> s | _ \<Rightarrow> [])"

subsection \<open>main: the loop over the disks\<close>

text \<open>The body of the loop below the \<^verbatim>\<open>continue\<close>: the tuple appended to \<^verbatim>\<open>zombies\<close>.\<close>

definition disk_row :: "pyfloat \<Rightarrow> disk \<Rightarrow> py_exception + row" where
  "disk_row rate d =
     (case name_or_unnamed d of
        Inl err \<Rightarrow> Inl err
      | Inr name \<Rightarrow>
          (let size_gb = size_gb_of d;
               rg = extract_resource_group (id_or_empty d)
           in case int_mul_float size_gb rate of
                Inl err \<Rightarrow> Inl err
              | Inr monthly_cost \<Rightarrow> Inr (name, size_gb, rg, monthly_cost)))"

fun scan_disks :: "pyfloat \<Rightarrow> disk list \<Rightarrow> row list \<Rightarrow> py_exception + row list" where
  "scan_disks rate [] zombies = Inr zombies"
| "scan_disks rate (d # ds) zombies =
     (if getattr_disk_state d \<noteq> Some ''Unattached'' then scan_disks rate ds zombies
      else case disk_row rate d of
             Inl err \<Rightarrow> Inl err
           | Inr r \<Rightarrow> scan_disks rate ds (zombies @ [r]))"

text \<open>The disks that pass the guard of the loop, in the order the provider yields them.\<close>

definition zombie_filter :: "disk list \<Rightarrow> disk list" where
  "zombie_filter ds = filter (\<lambda>d. \<not> getattr_disk_state d \<noteq> Some ''Unattached'') ds"

subsection \<open>main: sorting and summing\<close>

text \<open>
  \<^verbatim>\<open>zombies.sort(key=lambda x: x[3], reverse=True)\<close>. CPython reverses the list, sorts it
  stably in ascending order comparing the keys with \<^verbatim>\<open><\<close> only, and reverses it again.
  The ascending sort is written as an insertion sort; on keys that \<^verbatim>\<open><\<close> orders totally
  (no NaN) every stable sort returns the same list.
\<close>

fun cost :: "row \<Rightarrow> pyfloat" where
  "cost (name, size_gb, rg, monthly_cost) = monthly_cost"

fun insort_cost :: "row \<Rightarrow> row list \<Rightarrow> row list" where
  "insort_cost x [] = [x]"
| "insort_cost x (y # ys) =
     (if float_lt (cost y) (cost x) then y # insort_cost x ys else x # y # ys)"

definition sort_cost :: "row list \<Rightarrow> row list" where
  "sort_cost zs = foldr insort_cost zs []"

definition sort_cost_reverse :: "row list \<Rightarrow> row list" where
  "sort_cost_reverse zs = rev (sort_cost (rev zs))"

text \<open>
  \<^verbatim>\<open>sum(r[3] for r in zombies)\<close> starts from the \<^verbatim>\<open>int\<close> 0 and adds the items from left
  to right. CPython up to 3.11 does exactly that (\<open>sum_left\<close>); CPython from 3.12 on adds
  the first item to 0 and the others by Neumaier's compensated summation
  (\<open>sum_compensated\<close>): \<open>hi\<close> is the running sum, \<open>c\<close> the running compensation, added at
  the end when it is finite and not zero.
\<close>

definition float_zero :: pyfloat where
  "float_zero = Finite False 0 (- 1074)"

definition sum_left :: "pyfloat list \<Rightarrow> pyfloat" where
  "sum_left xs = foldl float_add float_zero xs"

fun neumaier :: "pyfloat \<Rightarrow> pyfloat \<Rightarrow> pyfloat list \<Rightarrow> pyfloat" where
  "neumaier hi c [] =
     (case c of Finite s m e \<Rightarrow> (if m \<noteq> 0 then float_add hi c else hi) | _ \<Rightarrow> hi)"
| "neumaier hi c (x # xs) =
     (let t = float_add hi x;
          d = (if float_ge (float_abs hi) (float_abs x)
               then float_add (float_sub hi t) x
               else float_add (float_sub x t) hi)
      in neumaier t (float_add c d) xs)"

definition sum_compensated :: "pyfloat list \<Rightarrow> pyfloat" where
  "sum_compensated xs =
     (case xs of [] \<Rightarrow> float_zero | x # rest \<Rightarrow> neumaier (float_add float_zero x) float_zero rest)"

definition py_sum :: "bool \<Rightarrow> pyfloat list \<Rightarrow> pyfloat" where
  "py_sum compensated xs = (if compensated then sum_compensated xs else sum_left xs)"

subsection \<open>main\<close>

text \<open>
  What a run depends on: the parsed \<^verbatim>\<open>--rate\<close>, whether constructing the credential and
  the client raises, what the \<open>k\<close>-th call of \<^verbatim>\<open>client.disks.list()\<close> yields (the disks
  and, when the iteration fails after them, the exception), and which \<^verbatim>\<open>sum\<close> the
  interpreter has. What a run produces: the texts printed on \<^verbatim>\<open>stdout\<close> and \<^verbatim>\<open>stderr\<close>
  (one entry per \<^verbatim>\<open>print\<close> call, without the newline \<^verbatim>\<open>print\<close> appends), the value
  returned, and how often \<^verbatim>\<open>client.disks.list()\<close> was called.
\<close>

record env =
  rate :: pyfloat
  credential :: "py_exception option"
  compute_client :: "py_exception option"
  disks_list :: "nat \<Rightarrow> disk list \<times> py_exception option"
  compensated_sum :: bool

record outcome =
  stdout :: "string list"
  stderr :: "string list"
  exit_code :: int
  list_calls :: nat

definition tips :: string where
  "tips = [CHR 0x0A] @ ''Tips:'' @ [CHR 0x0A]
     @ '' - Ensure you can authenticate with DefaultAzureCredential:'' @ [CHR 0x0A]
     @ ''   * az login'' @ [CHR 0x0A]
     @ ''   * or use Managed Identity / VS Code Azure extension / environment variables''
     @ [CHR 0x0A]
     @ '' - Verify the subscription ID is correct.'' @ [CHR 0x0A]"

text \<open>The \<^verbatim>\<open>except Exception as exc\<close> handler.\<close>

definition handler :: "py_exception \<Rightarrow> nat \<Rightarrow> outcome" where
  "handler exc calls =
     \<lparr>stdout = [], stderr = [''[ERROR] '' @ exc_str exc, tips], exit_code = 1,
      list_calls = calls\<rparr>"

definition total_line :: "pyfloat \<Rightarrow> pyfloat \<Rightarrow> string" where
  "total_line tot r =
     [CHR 0x0A] @ ''Total estimated monthly waste: '' @ format_money tot
       @ '' (rate: $'' @ format_2f False r @ ''/GB-month)''"

text \<open>The part of \<^verbatim>\<open>main\<close> after the loop, for a list \<^verbatim>\<open>zombies\<close> that is not empty.\<close>

definition report :: "env \<Rightarrow> row list \<Rightarrow> string list" where
  "report e zombies =
     (let zs = sort_cost_reverse zombies;
          tot = py_sum (compensated_sum e) (map cost zs)
      in [make_table zs, total_line tot (rate e)])"

definition main :: "env \<Rightarrow> outcome" where
  "main e =
     (case credential e of
        Some exc \<Rightarrow> handler exc 0
      | None \<Rightarrow>
     (case compute_client e of
        Some exc \<Rightarrow> handler exc 0
      | None \<Rightarrow>
     (case disks_list e 0 of (disks, raised) \<Rightarrow>
     (case scan_disks (rate e) disks [] of
        Inl exc \<Rightarrow> handler exc 1
      | Inr zombies \<Rightarrow>
     (case raised of
        Some exc \<Rightarrow> handler exc 1
      | None \<Rightarrow>
          if zombies = []
          then \<lparr>stdout = [''No zombies detected. Good job!''], stderr = [], exit_code = 0,
                list_calls = 1\<rparr>
          else \<lparr>stdout = report e zombies, stderr = [], exit_code = 0, list_calls = 1\<rparr>)))))"

subsection \<open>Example inputs\<close>

text \<open>
  The rate \<^verbatim>\<open>1.5\<close>, the two disks of the scenario of the specification (\<^verbatim>\<open>d1\<close>: 100 GB,
  unattached, in \<^verbatim>\<open>rg1\<close>; \<^verbatim>\<open>d2\<close>: 50 GB, attached), a disk without a state, a disk whose
  state differs from \<^verbatim>\<open>Unattached\<close> in case only, and an unattached disk without a size.
\<close>

definition rate_1_5 :: pyfloat where
  "rate_1_5 = Finite False (3 * 2 ^ 51) (- 52)"

definition disk_d1 :: disk where
  "disk_d1 = \<lparr>d_class = ''Disk'', d_id = Value ''/subscriptions/s/resourceGroups/rg1/disks/d1'',
     d_name = Value ''d1'', disk_size_gb = Value 100, disk_state = Value ''Unattached''\<rparr>"

definition disk_d2 :: disk where
  "disk_d2 = \<lparr>d_class = ''Disk'', d_id = Value ''/subscriptions/s/resourceGroups/rg2/disks/d2'',
     d_name = Value ''d2'', disk_size_gb = Value 50, disk_state = Value ''Attached''\<rparr>"

definition disk_stateless :: disk where
  "disk_stateless = \<lparr>d_class = ''Disk'', d_id = PyNone, d_name = Value ''d3'',
     disk_size_gb = Value 10, disk_state = Missing\<rparr>"

definition disk_lowercase :: disk where
  "disk_lowercase = \<lparr>d_class = ''Disk'', d_id = PyNone, d_name = Value ''d4'',
     disk_size_gb = Value 10, disk_state = Value ''unattached''\<rparr>"

definition disk_sizeless :: disk where
  "disk_sizeless = \<lparr>d_class = ''Disk'', d_id = Value ''/subscriptions/s/resourceGroups/rg1/disks/d5'',
     d_name = Value ''d5'', disk_size_gb = PyNone, disk_state = Value ''Unattached''\<rparr>"

text \<open>
  The rates \<^verbatim>\<open>0.1\<close> and \<^verbatim>\<open>1.0\<close>, the disk \<^verbatim>\<open>d1\<close> with another size, the rows of three
  disks of 1, 2 and 3 GB at the rate \<^verbatim>\<open>0.1\<close>, and the rows of four disks of 1, 1, \<open>2 ^ 53\<close>
  and \<open>2 ^ 106\<close> GB at the rate \<^verbatim>\<open>1.0\<close>.
\<close>

definition rate_0_1 :: pyfloat where
  "rate_0_1 = Finite False 7205759403792794 (- 56)"

definition rate_1 :: pyfloat where
  "rate_1 = Finite False (2 ^ 52) (- 52)"

definition disk_sized :: "int \<Rightarrow> disk" where
  "disk_sized n = disk_d1\<lparr>disk_size_gb := Value n\<rparr>"

definition rows_tenth :: "row list" where
  "rows_tenth =
     [(''d1'', 1, ''rg1'', Finite False 7205759403792794 (- 56)),
      (''d1'', 2, ''rg1'', Finite False 7205759403792794 (- 55)),
      (''d1'', 3, ''rg1'', Finite False 5404319552844596 (- 54))]"

definition rows_wide :: "row list" where
  "rows_wide =
     [(''d1'', 1, ''rg1'', Finite False (2 ^ 52) (- 52)),
      (''d1'', 1, ''rg1'', Finite False (2 ^ 52) (- 52)),
      (''d1'', 2 ^ 53, ''rg1'', Finite False (2 ^ 52) 1),
      (''d1'', 2 ^ 106, ''rg1'', Finite False (2 ^ 52) 54)]"

definition env_of :: "pyfloat \<Rightarrow> disk list \<Rightarrow> py_exception option \<Rightarrow> env" where
  "env_of r ds raised =
     \<lparr>rate = r, credential = None, compute_client = None,
      disks_list = (\<lambda>k. (ds, raised)), compensated_sum = False\<rparr>"

section \<open>Evaluation rules\<close>

lemmas float_eval =
  round_double_def round_half_even_def round_signed_def signed_def int_to_float_def int_mul_float_def
  float_sub_def float_ge_def float_eq_def Let_def bit_length.simps

lemmas string_eval =
  strip_char_def split_on_def char_lower_def str_lower_def ljust_def segments_def
  extract_resource_group_def rg_loop.simps format_money_def thousands_def cents_def
  str_int_def decimal.simps

lemmas disk_eval =
  getattr_disk_state_def name_or_unnamed_def size_gb_of_def id_or_empty_def disk_row_def
  rate_1_5_def disk_d1_def disk_d2_def disk_stateless_def disk_lowercase_def
  disk_sizeless_def env_of_def rate_0_1_def rate_1_def disk_sized_def

lemma row_d1:
  "disk_row rate_1_5 disk_d1 = Inr (''d1'', 100, ''rg1'', Finite False (75 * 2 ^ 46) (- 45))"
  by (simp add: disk_eval string_eval float_eval)

lemma row_sizeless:
  "disk_row rate_1_5 disk_sizeless = Inr (''d5'', 0, ''rg1'', Finite False 0 (- 1074))"
  by (simp add: disk_eval string_eval float_eval)

section \<open>The zombie filter\<close>

lemma guard_iff:
  "(\<not> getattr_disk_state d \<noteq> Some ''Unattached'') = (disk_state d = Value ''Unattached'')"
  by (cases "disk_state d") (simp_all add: getattr_disk_state_def)

lemma zombie_filter_eq:
  "zombie_filter ds = filter (\<lambda>d. disk_state d = Value ''Unattached'') ds"
  unfolding zombie_filter_def guard_iff ..

lemma scan_disks_skip:
  "scan_disks r (zombie_filter ds) acc = scan_disks r ds acc"
  by (induction ds arbitrary: acc) (auto simp: zombie_filter_def split: sum.splits)

lemma scan_disks_rows:
  "scan_disks r ds acc = Inr zs \<Longrightarrow>
     map Inr zs = map Inr acc @ map (disk_row r) (zombie_filter ds)"
  by (induction ds arbitrary: acc) (auto simp: zombie_filter_def split: sum.splits if_splits)

lemma scan_disks_none:
  "\<forall>d\<in>set ds. disk_state d \<noteq> Value ''Unattached'' \<Longrightarrow> scan_disks r ds acc = Inr acc"
  by (induction ds arbitrary: acc) (auto simp: guard_iff[symmetric])

lemma scan_demo:
  "scan_disks rate_1_5 [disk_d1, disk_d2, disk_stateless, disk_lowercase] []
     = Inr [(''d1'', 100, ''rg1'', Finite False (75 * 2 ^ 46) (- 45))]"
  by (simp add: row_d1) (simp add: disk_eval)

text \<open>
  Claim C1. When the loop of \<^verbatim>\<open>main\<close> completes, the rows it has collected are, in order,
  the rows of exactly those disks of the provider's sequence whose \<^verbatim>\<open>disk_state\<close> is the
  string \<^verbatim>\<open>Unattached\<close>: a disk is retained if and only if its state is that string,
  compared case-sensitively, and a disk whose state is missing or \<^verbatim>\<open>None\<close> is not
  retained.
\<close>

theorem zombie_iff_unattached:
  assumes "scan_disks r ds [] = Inr zombies"
  shows "map Inr zombies
           = map (disk_row r) (filter (\<lambda>d. disk_state d = Value ''Unattached'') ds)"
  using scan_disks_rows[OF assms] by (simp add: zombie_filter_eq)

theorem zombie_iff_unattached_witness:
  "scan_disks rate_1_5 [disk_d1, disk_d2, disk_stateless, disk_lowercase] []
     = Inr [(''d1'', 100, ''rg1'', Finite False (75 * 2 ^ 46) (- 45))]
   \<and> map Inr [(''d1'', 100, ''rg1'', Finite False (75 * 2 ^ 46) (- 45))]
       = map (disk_row rate_1_5)
           (filter (\<lambda>d. disk_state d = Value ''Unattached'')
              [disk_d1, disk_d2, disk_stateless, disk_lowercase])
   \<and> filter (\<lambda>d. disk_state d = Value ''Unattached'')
         [disk_d1, disk_d2, disk_stateless, disk_lowercase] = [disk_d1]"
proof -
  have "filter (\<lambda>d. disk_state d = Value ''Unattached'')
          [disk_d1, disk_d2, disk_stateless, disk_lowercase] = [disk_d1]"
    by (simp add: disk_eval)
  with scan_demo zombie_iff_unattached[OF scan_demo] show ?thesis
    by simp
qed

text \<open>
  Claim C8. Filtering is idempotent: filtering twice is filtering once, a sequence whose
  disks are all \<^verbatim>\<open>Unattached\<close> is left as it is, and the loop of \<^verbatim>\<open>main\<close> gives the same
  result on a sequence and on the filtered sequence.
\<close>

theorem zombie_filter_idempotent:
  "zombie_filter (zombie_filter ds) = zombie_filter ds
   \<and> ((\<forall>d\<in>set ds. disk_state d = Value ''Unattached'') \<longrightarrow> zombie_filter ds = ds)
   \<and> scan_disks r (zombie_filter ds) acc = scan_disks r ds acc"
proof (intro conjI)
  show "zombie_filter (zombie_filter ds) = zombie_filter ds"
    by (simp add: zombie_filter_eq)
  show "(\<forall>d\<in>set ds. disk_state d = Value ''Unattached'') \<longrightarrow> zombie_filter ds = ds"
    by (simp add: zombie_filter_eq)
  show "scan_disks r (zombie_filter ds) acc = scan_disks r ds acc"
    by (rule scan_disks_skip)
qed

theorem zombie_filter_idempotent_witness:
  "disk_state disk_d1 = Value ''Unattached'' \<and> disk_state disk_sizeless = Value ''Unattached''
   \<and> zombie_filter [disk_d1, disk_sizeless] = [disk_d1, disk_sizeless]
   \<and> zombie_filter (zombie_filter [disk_d1, disk_d2]) = zombie_filter [disk_d1, disk_d2]"
proof -
  have h: "\<forall>d\<in>set [disk_d1, disk_sizeless]. disk_state d = Value ''Unattached''"
    by (simp add: disk_eval)
  from zombie_filter_idempotent[of "[disk_d1, disk_sizeless]"] h
  have "zombie_filter [disk_d1, disk_sizeless] = [disk_d1, disk_sizeless]"
    by blast
  with h zombie_filter_idempotent[of "[disk_d1, disk_d2]"] show ?thesis
    by simp
qed

section \<open>Runs without a report\<close>

text \<open>
  Claim C6. When the credential and the client are constructed, the listing yields its
  disks without raising, and no disk is \<^verbatim>\<open>Unattached\<close> (in particular when there is no
  disk), the run prints \<^verbatim>\<open>No zombies detected. Good job!\<close> and nothing else, on
  \<^verbatim>\<open>stdout\<close>, and returns 0.
\<close>

theorem no_zombies_message:
  assumes "credential e = None" and "compute_client e = None"
    and "disks_list e 0 = (ds, None)"
    and "\<forall>d\<in>set ds. disk_state d \<noteq> Value ''Unattached''"
  shows "main e = \<lparr>stdout = [''No zombies detected. Good job!''], stderr = [],
                    exit_code = 0, list_calls = 1\<rparr>"
  using assms by (simp add: main_def scan_disks_none)

theorem no_zombies_message_witness:
  "main (env_of rate_1_5 [disk_d2, disk_stateless, disk_lowercase] None)
     = \<lparr>stdout = [''No zombies detected. Good job!''], stderr = [],
        exit_code = 0, list_calls = 1\<rparr>
   \<and> main (env_of rate_1_5 [] None)
     = \<lparr>stdout = [''No zombies detected. Good job!''], stderr = [],
        exit_code = 0, list_calls = 1\<rparr>"
proof -
  have a: "\<forall>d\<in>set [disk_d2, disk_stateless, disk_lowercase].
             disk_state d \<noteq> Value ''Unattached''"
    by (simp add: disk_eval)
  have b: "\<forall>d\<in>set ([] :: disk list). disk_state d \<noteq> Value ''Unattached''"
    by simp
  show ?thesis
    using no_zombies_message[of "env_of rate_1_5 [disk_d2, disk_stateless, disk_lowercase] None",
            OF _ _ _ a]
          no_zombies_message[of "env_of rate_1_5 [] None", OF _ _ _ b]
    by (simp add: env_of_def)
qed



section \<open>Resource group extraction\<close>

lemma rg_loop_found:
  "i \<le> k \<Longrightarrow> Suc k < length parts \<Longrightarrow> str_lower (parts ! k) = ''resourcegroups'' \<Longrightarrow>
   (\<forall>j. i \<le> j \<and> j < k \<longrightarrow> str_lower (parts ! j) \<noteq> ''resourcegroups'') \<Longrightarrow>
   rg_loop parts i = parts ! Suc k"
proof (induction parts i rule: rg_loop.induct)
  case (1 parts i)
  show ?case
  proof (cases "i = k")
    case True
    with "1.prems" show ?thesis by (simp add: rg_loop.simps)
  next
    case False
    with "1.prems" have lt: "i < k" and nomatch: "str_lower (parts ! i) \<noteq> ''resourcegroups''"
      by auto
    from lt "1.prems" have "rg_loop parts (i + 1) = parts ! Suc k"
      by (intro "1.IH") auto
    with lt "1.prems" nomatch show ?thesis
      by (subst rg_loop.simps) simp
  qed
qed

lemma rg_loop_none:
  "(\<forall>j. i \<le> j \<and> Suc j < length parts \<longrightarrow> str_lower (parts ! j) \<noteq> ''resourcegroups'') \<Longrightarrow>
   rg_loop parts i = ''Unknown''"
proof (induction parts i rule: rg_loop.induct)
  case (1 parts i)
  show ?case
  proof (cases "i < length parts")
    case False
    then show ?thesis by (simp add: rg_loop.simps)
  next
    case True
    have nomatch: "\<not> (str_lower (parts ! i) = ''resourcegroups'' \<and> i + 1 < length parts)"
      using "1.prems" by auto
    have "rg_loop parts (i + 1) = ''Unknown''"
      using True nomatch "1.prems" by (intro "1.IH") auto
    with True nomatch show ?thesis
      by (subst rg_loop.simps) auto
  qed
qed

text \<open>
  Claim C3. Let the segments of an identifier be what remains after stripping the leading
  and trailing \<^verbatim>\<open>/\<close> and splitting on \<^verbatim>\<open>/\<close>. When segment \<open>i\<close> is the first one that
  equals \<^verbatim>\<open>resourcegroups\<close> once lowered and a segment follows it, the function returns
  that following segment. When no segment that is followed by another one equals
  \<^verbatim>\<open>resourcegroups\<close> once lowered, and in particular for the empty identifier, it returns
  \<^verbatim>\<open>Unknown\<close>. The function is total: it is defined by a terminating recursion and
  returns a string for every identifier.
\<close>

theorem extract_resource_group_spec:
  "(Suc i < length (segments rid)
      \<and> str_lower (segments rid ! i) = ''resourcegroups''
      \<and> (\<forall>j<i. str_lower (segments rid ! j) \<noteq> ''resourcegroups'')
     \<longrightarrow> extract_resource_group rid = segments rid ! Suc i)
   \<and> ((\<forall>j. Suc j < length (segments rid) \<longrightarrow> str_lower (segments rid ! j) \<noteq> ''resourcegroups'')
     \<longrightarrow> extract_resource_group rid = ''Unknown'')
   \<and> (rid = [] \<longrightarrow> extract_resource_group rid = ''Unknown'')"
proof (intro conjI impI)
  assume a: "Suc i < length (segments rid)
      \<and> str_lower (segments rid ! i) = ''resourcegroups''
      \<and> (\<forall>j<i. str_lower (segments rid ! j) \<noteq> ''resourcegroups'')"
  then have "rid \<noteq> []"
    by (auto simp: segments_def strip_char_def split_on_def)
  moreover from a have "rg_loop (segments rid) 0 = segments rid ! Suc i"
    by (intro rg_loop_found) auto
  ultimately show "extract_resource_group rid = segments rid ! Suc i"
    by (simp add: extract_resource_group_def)
next
  assume "\<forall>j. Suc j < length (segments rid) \<longrightarrow> str_lower (segments rid ! j) \<noteq> ''resourcegroups''"
  then have "rg_loop (segments rid) 0 = ''Unknown''"
    by (intro rg_loop_none) auto
  then show "extract_resource_group rid = ''Unknown''"
    by (simp add: extract_resource_group_def)
next
  assume "rid = []"
  then show "extract_resource_group rid = ''Unknown''"
    by (simp add: extract_resource_group_def)
qed

lemma seg_demo:
  "segments ''/subscriptions/s/resourceGroups/rg1/disks/d1''
     = [''subscriptions'', ''s'', ''resourceGroups'', ''rg1'', ''disks'', ''d1'']"
  by (simp add: string_eval)

lemma seg_demo2: "segments ''/disks/resourceGroups/'' = [''disks'', ''resourceGroups'']"
  by (simp add: string_eval)

theorem extract_resource_group_spec_witness:
  "extract_resource_group ''/subscriptions/s/resourceGroups/rg1/disks/d1'' = ''rg1''
   \<and> extract_resource_group ''/disks/resourceGroups/'' = ''Unknown''
   \<and> extract_resource_group [] = ''Unknown''"
proof -
  have "extract_resource_group ''/subscriptions/s/resourceGroups/rg1/disks/d1'' = ''rg1''"
    using extract_resource_group_spec[of 2 "''/subscriptions/s/resourceGroups/rg1/disks/d1''"]
    by (simp add: seg_demo str_lower_def char_lower_def less_Suc_eq numeral_2_eq_2)
  moreover have "extract_resource_group ''/disks/resourceGroups/'' = ''Unknown''"
    using extract_resource_group_spec[of 0 "''/disks/resourceGroups/''"]
    by (simp add: seg_demo2 str_lower_def char_lower_def less_Suc_eq)
  moreover have "extract_resource_group [] = ''Unknown''"
    using extract_resource_group_spec[of 0 "[]"] by simp
  ultimately show ?thesis by simp
qed

section \<open>The table\<close>













section \<open>Sorting by cost\<close>










text \<open>With a finite rate no cost the loop computes is a NaN.\<close>

lemma round_double_not_nan: "round_double s m e \<noteq> NaN"
  by (simp add: round_double_def Let_def)

lemma int_mul_float_not_nan:
  "int_mul_float i (Finite s m e) = Inr c \<Longrightarrow> c \<noteq> NaN"
  by (auto simp: int_mul_float_def int_to_float_def round_double_not_nan
      split: pyfloat.splits sum.splits)

lemma disk_row_not_nan:
  "disk_row (Finite s m e) d = Inr z \<Longrightarrow> cost z \<noteq> NaN"
  by (auto simp: disk_row_def Let_def int_mul_float_not_nan split: sum.splits)

lemma scan_disks_not_nan:
  "scan_disks (Finite s m e) ds acc = Inr zs \<Longrightarrow> \<forall>z\<in>set acc. cost z \<noteq> NaN \<Longrightarrow>
     \<forall>z\<in>set zs. cost z \<noteq> NaN"
proof (induction ds arbitrary: acc)
  case Nil
  then show ?case by simp
next
  case (Cons d ds)
  show ?case
  proof (cases "getattr_disk_state d \<noteq> Some ''Unattached''")
    case True
    with Cons show ?thesis by simp
  next
    case False
    with Cons.prems(1) obtain z where z: "disk_row (Finite s m e) d = Inr z"
      and rest: "scan_disks (Finite s m e) ds (acc @ [z]) = Inr zs"
      by (auto split: sum.splits)
    from z have "cost z \<noteq> NaN" by (rule disk_row_not_nan)
    with Cons.prems(2) have "\<forall>y\<in>set (acc @ [z]). cost y \<noteq> NaN" by simp
    with rest show ?thesis by (rule Cons.IH)
  qed
qed



end
